theory Spec2Isabelle
  imports Complex_Main
begin

section \<open>Decimal and float arithmetic\<close>

text \<open>
  The prices, sizes and capital of the program are Python \<open>Decimal\<close> values and its
  scores and size fractions are Python floats. Both are represented by the rational
  number they denote, and every arithmetic operation rounds its exact result as the
  program does: to 28 significant decimal digits, ties to even, for \<open>Decimal\<close> (the
  default context of the \<open>decimal\<close> module), and to 53 significant binary digits, ties to
  even, for floats (IEEE binary64). Comparisons are exact in both. Below the smallest
  normal exponent (\<open>10^-999999\<close>, \<open>2^-1022\<close>) the rounding keeps the spacing of that
  exponent, as both arithmetics do; results above the largest exponent, where the
  program raises \<open>Overflow\<close> or gives an infinity, are outside the model. Dividing
  a \<open>Decimal\<close> by zero raises, so each division of the source is guarded in the model
  and the raise is a result of its own. Clock reads (\<open>datetime.utcnow()\<close>) are a parameter
  \<open>now\<close> of the operation that performs them.
\<close>

type_synonym decimal = rat
type_synonym pyfloat = rat
type_synonym timestamp = rat

text \<open>The power \<open>b^k\<close> for an integer exponent.\<close>

definition bpow :: "nat \<Rightarrow> int \<Rightarrow> rat" where
  "bpow b k = (if 0 \<le> k then of_nat b ^ nat k else 1 / of_nat b ^ nat (- k))"

text \<open>
  The exponent of a positive number \<open>a\<close> in base \<open>b\<close>: the integer \<open>e\<close> with
  \<open>b^e \<le> a < b^(e+1)\<close>, found by dividing or multiplying by the base.
\<close>

function ilog_up :: "nat \<Rightarrow> rat \<Rightarrow> int \<Rightarrow> int" where
  "ilog_up b a e = (if 2 \<le> b \<and> of_nat b \<le> a then ilog_up b (a / of_nat b) (e + 1) else e)"
  by pat_completeness auto
termination
proof (relation "measure (\<lambda>(b, a, e). nat \<lfloor>a\<rfloor>)")
  show "wf (measure (\<lambda>(b, a, e). nat \<lfloor>a\<rfloor>))" by simp
next
  fix b :: nat and a :: rat and e :: int
  assume h: "2 \<le> b \<and> of_nat b \<le> a"
  then have b2: "(2::rat) \<le> of_nat b" by (metis of_nat_le_iff of_nat_numeral)
  with h have a2: "2 \<le> a" by linarith
  from b2 a2 have "a / of_nat b \<le> a / 2"
    by (intro divide_left_mono) simp_all
  also from a2 have "\<dots> \<le> a - 1" by simp
  finally have "\<lfloor>a / of_nat b\<rfloor> \<le> \<lfloor>a - 1\<rfloor>" by (rule floor_mono)
  then have "\<lfloor>a / of_nat b\<rfloor> < \<lfloor>a\<rfloor>" by simp
  moreover from a2 have "0 < \<lfloor>a\<rfloor>" by simp
  ultimately show "((b, a / of_nat b, e + 1), (b, a, e)) \<in> measure (\<lambda>(b, a, e). nat \<lfloor>a\<rfloor>)"
    by simp
qed

function ilog_down :: "nat \<Rightarrow> rat \<Rightarrow> int \<Rightarrow> int" where
  "ilog_down b a e =
     (if 2 \<le> b \<and> 0 < a \<and> a < 1 then ilog_down b (a * of_nat b) (e - 1) else e)"
  by pat_completeness auto
termination
proof (relation "measure (\<lambda>(b, a, e). nat \<lfloor>1 / a\<rfloor>)")
  show "wf (measure (\<lambda>(b, a, e). nat \<lfloor>1 / a\<rfloor>))" by simp
next
  fix b :: nat and a :: rat and e :: int
  assume h: "2 \<le> b \<and> 0 < a \<and> a < 1"
  then have b2: "(2::rat) \<le> of_nat b" by (metis of_nat_le_iff of_nat_numeral)
  define y where "y = 1 / a"
  from h have y1: "1 < y" by (simp add: y_def)
  have eq: "1 / (a * of_nat b) = y / of_nat b" by (simp add: y_def)
  have half: "y / of_nat b \<le> y / 2"
    using b2 y1 by (intro divide_left_mono) simp_all
  have "\<lfloor>y / of_nat b\<rfloor> < \<lfloor>y\<rfloor>"
  proof (cases "y < 2")
    case True
    with half have "y / of_nat b < 1" by linarith
    moreover from y1 b2 have "0 \<le> y / of_nat b" by simp
    ultimately have "\<lfloor>y / of_nat b\<rfloor> = 0" by (simp add: floor_eq_iff)
    moreover from y1 have "1 \<le> \<lfloor>y\<rfloor>" by simp
    ultimately show ?thesis by simp
  next
    case False
    with half have "y / of_nat b \<le> y - 1" by linarith
    then have "\<lfloor>y / of_nat b\<rfloor> \<le> \<lfloor>y - 1\<rfloor>" by (rule floor_mono)
    then show ?thesis by simp
  qed
  moreover from y1 have "0 < \<lfloor>y\<rfloor>" by simp
  ultimately have "nat \<lfloor>y / of_nat b\<rfloor> < nat \<lfloor>y\<rfloor>" by simp
  then have "nat \<lfloor>1 / (a * of_nat b)\<rfloor> < nat \<lfloor>1 / a\<rfloor>"
    by (simp only: eq y_def)
  then show "((b, a * of_nat b, e - 1), (b, a, e)) \<in> measure (\<lambda>(b, a, e). nat \<lfloor>1 / a\<rfloor>)"
    by simp
qed

declare ilog_up.simps [simp del] ilog_down.simps [simp del]

definition ilog :: "nat \<Rightarrow> rat \<Rightarrow> int" where
  "ilog b a = (if 1 \<le> a then ilog_up b a 0 else ilog_down b a 0)"

text \<open>Rounding to the nearest integer, a tie to the even one.\<close>

definition round_half_even :: "rat \<Rightarrow> int" where
  "round_half_even q =
     (let f = \<lfloor>q\<rfloor>; r = q - of_int f
      in if r < 1 / 2 then f else if 1 / 2 < r then f + 1 else if even f then f else f + 1)"

text \<open>
  Rounding to \<open>p\<close> significant digits in base \<open>b\<close>, with the spacing of the exponent
  \<open>emin\<close> below it.
\<close>

definition round_to :: "nat \<Rightarrow> nat \<Rightarrow> int \<Rightarrow> rat \<Rightarrow> rat" where
  "round_to b p emin x =
     (if x = 0 then 0
      else (let q = bpow b (max (ilog b \<bar>x\<bar>) emin - (int p - 1))
            in sgn x * of_int (round_half_even (\<bar>x\<bar> / q)) * q))"

definition dec :: "rat \<Rightarrow> decimal" where
  "dec x = round_to 10 28 (- 999999) x"

definition fl :: "rat \<Rightarrow> pyfloat" where
  "fl x = round_to 2 53 (- 1022) x"

text \<open>The operations of \<open>Decimal\<close>; \<open>sum\<close> adds from the left, starting at zero.\<close>

definition dadd :: "decimal \<Rightarrow> decimal \<Rightarrow> decimal" where
  "dadd x y = dec (x + y)"

definition dsub :: "decimal \<Rightarrow> decimal \<Rightarrow> decimal" where
  "dsub x y = dec (x - y)"

definition dmul :: "decimal \<Rightarrow> decimal \<Rightarrow> decimal" where
  "dmul x y = dec (x * y)"

definition ddiv :: "decimal \<Rightarrow> decimal \<Rightarrow> decimal" where
  "ddiv x y = dec (x / y)"

definition dsum :: "decimal list \<Rightarrow> decimal" where
  "dsum xs = foldl dadd 0 xs"

text \<open>The product of two floats.\<close>

definition fmul :: "pyfloat \<Rightarrow> pyfloat \<Rightarrow> pyfloat" where
  "fmul x y = fl (x * y)"

section \<open>Data model (models.py)\<close>

datatype OrderSide = YES | NO

datatype OrderType = LIMIT | MARKET

datatype PositionSide = LONG | SHORT

datatype OpportunityType =
  ARBITRAGE | NEWS_GAP | PROBABILITY_EDGE | TIME_DECAY | LIQUIDITY
  | TRADER_SIGNAL | SOCIAL_SENTIMENT | BREAKING_NEWS

datatype py_error = DivisionByZero | InvalidOperation

record OrderBookEntry =
  price :: decimal
  size' :: decimal

record OrderBook =
  market_id :: string
  yes_bids :: "OrderBookEntry list"
  yes_asks :: "OrderBookEntry list"
  no_bids :: "OrderBookEntry list"
  no_asks :: "OrderBookEntry list"

text \<open>
  The truth value Python gives an \<open>Optional[Decimal]\<close> in a condition: \<open>None\<close> and
  a zero are both false.
\<close>

definition truthy :: "decimal option \<Rightarrow> bool" where
  "truthy v = (case v of None \<Rightarrow> False | Some d \<Rightarrow> d \<noteq> 0)"

text \<open>\<open>max(..., default=None)\<close> and \<open>min(..., default=None)\<close> over a generator.\<close>

fun max_default :: "decimal list \<Rightarrow> decimal option" where
  "max_default [] = None"
| "max_default (x # xs) = Some (fold max xs x)"

fun min_default :: "decimal list \<Rightarrow> decimal option" where
  "min_default [] = None"
| "min_default (x # xs) = Some (fold min xs x)"

definition get_best_yes_price :: "OrderBook \<Rightarrow> decimal option" where
  "get_best_yes_price ob = max_default (map price (yes_bids ob))"

definition get_best_no_price :: "OrderBook \<Rightarrow> decimal option" where
  "get_best_no_price ob = max_default (map price (no_bids ob))"

section \<open>Order book analytics (enhanced_orderbook.py)\<close>

record BestBidAsk =
  best_bid :: "decimal option"
  best_ask :: "decimal option"
  spread :: "decimal option"
  mid_price :: "decimal option"

text \<open>
  \<open>get_best_bid_ask\<close> takes the outcome as a string and compares its upper-case form
  with \<open>"YES"\<close>; the two branches of that test are the two values of \<open>OrderSide\<close>.
\<close>

definition side_bids :: "OrderBook \<Rightarrow> OrderSide \<Rightarrow> OrderBookEntry list" where
  "side_bids ob sd = (case sd of YES \<Rightarrow> yes_bids ob | NO \<Rightarrow> no_bids ob)"

definition side_asks :: "OrderBook \<Rightarrow> OrderSide \<Rightarrow> OrderBookEntry list" where
  "side_asks ob sd = (case sd of YES \<Rightarrow> yes_asks ob | NO \<Rightarrow> no_asks ob)"

definition get_best_bid_ask :: "OrderBook \<Rightarrow> OrderSide \<Rightarrow> BestBidAsk" where
  "get_best_bid_ask ob sd =
     (let bb = max_default (map price (side_bids ob sd));
          ba = min_default (map price (side_asks ob sd));
          both = (truthy bb \<and> truthy ba)
      in \<lparr> best_bid = bb,
           best_ask = ba,
           spread = (case (bb, ba) of
                       (Some b, Some a) \<Rightarrow> if both then Some (dsub a b) else None
                     | _ \<Rightarrow> None),
           mid_price = (case (bb, ba) of
                       (Some b, Some a) \<Rightarrow> if both then Some (ddiv (dadd b a) 2) else None
                     | _ \<Rightarrow> None) \<rparr>)"

datatype arbitrage_type = buy_arbitrage | sell_arbitrage

record Arbitrage =
  arb_type :: arbitrage_type
  opportunity_pct :: decimal
  yes_price :: decimal
  no_price :: decimal
  total' :: decimal
  profit_potential :: decimal

definition get_arbitrage_opportunity :: "OrderBook \<Rightarrow> Arbitrage option" where
  "get_arbitrage_opportunity ob =
     (let yes_mid = mid_price (get_best_bid_ask ob YES);
          no_mid = mid_price (get_best_bid_ask ob NO)
      in case (yes_mid, no_mid) of
           (Some y, Some n) \<Rightarrow>
             if y \<noteq> 0 \<and> n \<noteq> 0 then
               (let tot = dadd y n in
                if tot < 98 / 100 then
                  (let opportunity = dsub 1 tot
                   in Some \<lparr> arb_type = buy_arbitrage,
                             opportunity_pct = dmul opportunity 100,
                             yes_price = y, no_price = n, total' = tot,
                             profit_potential = opportunity \<rparr>)
                else if tot > 102 / 100 then
                  (let opportunity = dsub tot 1
                   in Some \<lparr> arb_type = sell_arbitrage,
                             opportunity_pct = dmul opportunity 100,
                             yes_price = y, no_price = n, total' = tot,
                             profit_potential = opportunity \<rparr>)
                else None)
             else None
         | _ \<Rightarrow> None)"

text \<open>
  The simpler \<open>OrderBook.get_arbitrage_opportunity\<close> of models.py, which the scanner
  calls: it adds the best bids (not the mids) and reports the buy side only.
\<close>

definition book_arbitrage_opportunity :: "OrderBook \<Rightarrow> decimal option" where
  "book_arbitrage_opportunity ob =
     (case (get_best_yes_price ob, get_best_no_price ob) of
        (Some y, Some n) \<Rightarrow>
          if y \<noteq> 0 \<and> n \<noteq> 0 \<and> dadd y n < 98 / 100 then Some (dsub 1 (dadd y n)) else None
      | _ \<Rightarrow> None)"

text \<open>
  The loop of \<open>get_market_impact\<close> over the asks in ascending price order: it stops at
  the first level reached with nothing left to fill, and otherwise takes
  \<open>min(remaining_size, ask.size)\<close> from the level. The state of the loop is
  (remaining size, total cost, levels consumed).
\<close>

fun consume_asks :: "OrderBookEntry list \<Rightarrow> decimal \<Rightarrow> decimal \<Rightarrow> nat \<Rightarrow> decimal \<times> decimal \<times> nat" where
  "consume_asks [] remaining_size total_cost levels_consumed =
     (remaining_size, total_cost, levels_consumed)"
| "consume_asks (ask # asks) remaining_size total_cost levels_consumed =
     (if remaining_size \<le> 0 then (remaining_size, total_cost, levels_consumed)
      else (let size_to_take = min remaining_size (size' ask)
            in consume_asks asks (dsub remaining_size size_to_take)
                 (dadd total_cost (dmul size_to_take (price ask))) (Suc levels_consumed)))"

record MarketImpact =
  average_price :: decimal
  price_impact_pct :: decimal
  levels_consumed :: nat
  total_cost :: decimal

definition get_market_impact :: "OrderBook \<Rightarrow> OrderSide \<Rightarrow> decimal \<Rightarrow> MarketImpact" where
  "get_market_impact ob sd sz =
     (let asks = sort_key price (side_asks ob sd);
          (remaining, cost, levels) = consume_asks asks sz 0 0;
          avg_price = (if sz > 0 then ddiv cost sz else 0);
          price_impact = (case best_ask (get_best_bid_ask ob sd) of
                            None \<Rightarrow> 0
                          | Some ba \<Rightarrow> if ba \<noteq> 0 then dmul (ddiv (dsub avg_price ba) ba) 100
                                       else 0)
      in \<lparr> average_price = avg_price, price_impact_pct = price_impact,
           levels_consumed = levels, total_cost = cost \<rparr>)"

text \<open>The size the walk of the ask ladder actually filled.\<close>

definition impact_filled_size :: "OrderBook \<Rightarrow> OrderSide \<Rightarrow> decimal \<Rightarrow> decimal" where
  "impact_filled_size ob sd sz = sz - fst (consume_asks (sort_key price (side_asks ob sd)) sz 0 0)"

section \<open>Opportunities, orders, positions and trades (models.py)\<close>

text \<open>
  The record fields carry a prefix where two classes of the source share a field name,
  and a prime where the name is a constant of the library (\<open>size'\<close>, \<open>total'\<close>).
  \<open>Opportunity.market\<close>, \<open>Opportunity.metadata\<close> and \<open>Position.market\<close> are not read by
  any operation modelled here and are left out. The identifiers of orders and trades are
  the text \<open>order_\<close> or \<open>trade_\<close> followed by the clock value; the model keeps the
  clock value.
\<close>

record Opportunity =
  opp_id :: string
  opp_market_id :: string
  opportunity_type :: OpportunityType
  opp_side :: OrderSide
  score :: pyfloat
  expected_return :: pyfloat
  risk_level :: string
  opp_entry_price :: decimal
  target_price :: "decimal option"
  opp_stop_loss :: "decimal option"
  reasoning :: string
  detected_at :: timestamp
  expires_at :: "timestamp option"

record Order =
  ord_id :: "timestamp option"
  ord_market_id :: string
  ord_side :: OrderSide
  order_type :: OrderType
  ord_price :: decimal
  ord_size :: decimal
  filled_size :: decimal
  status :: string
  created_at :: timestamp
  filled_at :: "timestamp option"

record Position =
  pos_id :: string
  pos_market_id :: string
  pos_side :: PositionSide
  pos_size :: decimal
  entry_price :: decimal
  current_price :: decimal
  strategy_id :: "string option"
  strategy_name :: "string option"
  unrealized_pnl :: decimal
  realized_pnl :: decimal
  stop_loss :: "decimal option"
  take_profit :: "decimal option"
  opened_at :: timestamp
  closed_at :: "timestamp option"

record Trade =
  tr_id :: timestamp
  tr_market_id :: string
  tr_side :: OrderSide
  tr_price :: decimal
  tr_size :: decimal
  tr_strategy_id :: "string option"
  pnl :: decimal
  executed_at :: timestamp

definition update_pnl :: "Position \<Rightarrow> decimal \<Rightarrow> Position" where
  "update_pnl p cp =
     p\<lparr> current_price := cp,
        unrealized_pnl := (if pos_side p = LONG then dmul (dsub cp (entry_price p)) (pos_size p)
                           else dmul (dsub (entry_price p) cp) (pos_size p)) \<rparr>"

text \<open>The \<open>.value\<close> of an \<open>OrderSide\<close> member.\<close>

definition side_value :: "OrderSide \<Rightarrow> string" where
  "side_value sd = (case sd of YES \<Rightarrow> ''YES'' | NO \<Rightarrow> ''NO'')"

section \<open>The paper-trading ledger (demo_trader.py)\<close>

text \<open>
  The \<open>positions\<close> dictionary is an association list in insertion order: assigning to
  a key that is present keeps its place, a new key goes to the end, \<open>del\<close> removes the
  key. The market-data client is the function \<open>feed\<close> from a market id to the order book
  it returns, \<open>None\<close> when the request fails (\<open>get_orderbook\<close> catches every exception
  and returns \<open>None\<close>).
\<close>

type_synonym feed = "string \<Rightarrow> OrderBook option"

fun dict_set :: "'k \<Rightarrow> 'v \<Rightarrow> ('k \<times> 'v) list \<Rightarrow> ('k \<times> 'v) list" where
  "dict_set k v [] = [(k, v)]"
| "dict_set k v ((k', v') # kvs) =
     (if k = k' then (k, v) # kvs else (k', v') # dict_set k v kvs)"

definition dict_del :: "'k \<Rightarrow> ('k \<times> 'v) list \<Rightarrow> ('k \<times> 'v) list" where
  "dict_del k kvs = filter (\<lambda>kv. fst kv \<noteq> k) kvs"

record DemoTrader =
  capital :: decimal
  initial_capital :: decimal
  positions :: "(string \<times> Position) list"
  orders :: "(string \<times> Order) list"
  trade_history :: "Trade list"
  closed_positions :: "Position list"

definition get_balance :: "DemoTrader \<Rightarrow> decimal" where
  "get_balance s = capital s"


definition get_equity :: "DemoTrader \<Rightarrow> decimal" where
  "get_equity s = dadd (capital s) (dsum (map (\<lambda>kv. unrealized_pnl (snd kv)) (positions s)))"




text \<open>
  \<open>_execute_order\<close>: the fill. It marks the order filled and deducts the capital before
  it merges the position, so when the merge divides by a total size of zero the
  exception leaves the order marked and the deduction in place. The result is the
  exception, if one is raised, the order as the call leaves it, and the ledger as the
  call leaves it.
\<close>

definition execute_order ::
  "timestamp \<Rightarrow> DemoTrader \<Rightarrow> Order \<Rightarrow> Opportunity \<Rightarrow> string option \<Rightarrow> string option
     \<Rightarrow> py_error option \<times> Order \<times> DemoTrader" where
  "execute_order now s order opportunity sid sname =
     (let order1 = order\<lparr> status := ''filled'', filled_size := ord_size order,
                          filled_at := Some now \<rparr>;
          cost = dmul (ord_price order1) (ord_size order1);
          s1 = s\<lparr> capital := dsub (capital s) cost \<rparr>;
          position_id = ord_market_id order1 @ ''_'' @ side_value (ord_side order1);
          trade = \<lparr> tr_id = now, tr_market_id = ord_market_id order1,
                    tr_side = ord_side order1, tr_price = ord_price order1,
                    tr_size = ord_size order1, tr_strategy_id = sid, pnl = 0,
                    executed_at = now \<rparr>
      in case map_of (positions s1) position_id of
           Some position \<Rightarrow>
             (let total_cost = dadd (dmul (entry_price position) (pos_size position)) cost;
                  total_size = dadd (pos_size position) (ord_size order1)
              in if total_size = 0
                 then (Some (if total_cost = 0 then InvalidOperation else DivisionByZero),
                       order1, s1)
                 else (let position1 = position\<lparr> entry_price := ddiv total_cost total_size,
                                                  pos_size := total_size \<rparr>;
                           position2 = update_pnl position1 (ord_price order1)
                       in (None, order1,
                           s1\<lparr> positions := dict_set position_id position2 (positions s1),
                               trade_history := trade_history s1 @ [trade] \<rparr>)))
         | None \<Rightarrow>
             (let position = \<lparr> pos_id = position_id, pos_market_id = ord_market_id order1,
                    pos_side = (if ord_side order1 = YES then LONG else SHORT),
                    pos_size = ord_size order1, entry_price = ord_price order1,
                    current_price = ord_price order1, strategy_id = sid,
                    strategy_name = sname, unrealized_pnl = 0, realized_pnl = 0,
                    stop_loss = opp_stop_loss opportunity,
                    take_profit = target_price opportunity,
                    opened_at = now, closed_at = None \<rparr>;
                  position2 = update_pnl position (ord_price order1)
              in (None, order1,
                  s1\<lparr> positions := dict_set position_id position2 (positions s1),
                      trade_history := trade_history s1 @ [trade] \<rparr>)))"

text \<open>
  What \<open>place_order\<close> gives its caller: \<open>None\<close> (the order was rejected), the filled
  order, or an exception. The size fraction arrives as a float and is read as the
  \<open>Decimal\<close> of its text, \<open>Decimal(str(position_size_pct))\<close>; the model takes that
  \<open>Decimal\<close>. The size is computed before the capital check, so a zero entry price
  raises before anything else happens. For an exception raised inside
  \<open>_execute_order\<close> the result also names the order that call was executing, which it
  has marked filled and deducted by then; the caller of the source sees the exception
  only.
\<close>

datatype place_result = Rejected | Placed Order | Raised py_error "Order option"

definition place_order ::
  "timestamp \<Rightarrow> DemoTrader \<Rightarrow> Opportunity \<Rightarrow> decimal \<Rightarrow> string option \<Rightarrow> string option
     \<Rightarrow> place_result \<times> DemoTrader" where
  "place_order now s opportunity position_size_pct sid sname =
     (let equity = get_equity s;
          position_value = dmul equity position_size_pct
      in if opp_entry_price opportunity = 0
         then (Raised (if position_value = 0 then InvalidOperation else DivisionByZero) None, s)
         else (let sz = ddiv position_value (opp_entry_price opportunity)
               in if position_value > capital s then (Rejected, s)
                  else (let order = \<lparr> ord_id = Some now,
                                ord_market_id = opp_market_id opportunity,
                                ord_side = opp_side opportunity, order_type = LIMIT,
                                ord_price = opp_entry_price opportunity, ord_size = sz,
                                filled_size = 0, status = ''pending'', created_at = now,
                                filled_at = None \<rparr>
                        in case execute_order now s order opportunity sid sname of
                             (Some e, order', s') \<Rightarrow> (Raised e (Some order'), s')
                           | (None, order', s') \<Rightarrow> (Placed order', s'))))"

text \<open>
  \<open>close_position\<close> returns the closed position, or \<open>None\<close> when it does nothing. The
  tests \<open>if not orderbook\<close> and \<open>if not exit_price\<close> are truth-value tests: an order
  book object is always true, a price is false when it is \<open>None\<close> or zero.
\<close>

definition close_position ::
  "timestamp \<Rightarrow> feed \<Rightarrow> DemoTrader \<Rightarrow> string \<Rightarrow> string \<Rightarrow> Position option \<times> DemoTrader" where
  "close_position now fd s position_id reason =
     (case map_of (positions s) position_id of
        None \<Rightarrow> (None, s)
      | Some position \<Rightarrow>
          (case fd (pos_market_id position) of
             None \<Rightarrow> (None, s)
           | Some orderbook \<Rightarrow>
               (case (if pos_side position = LONG then get_best_yes_price orderbook
                      else get_best_no_price orderbook) of
                  None \<Rightarrow> (None, s)
                | Some exit_price \<Rightarrow>
                    if exit_price = 0 then (None, s)
                    else (let realized =
                                (if pos_side position = LONG
                                 then dmul (dsub exit_price (entry_price position))
                                        (pos_size position)
                                 else dmul (dsub (entry_price position) exit_price)
                                        (pos_size position));
                              position1 = position\<lparr> realized_pnl := realized,
                                                     current_price := exit_price,
                                                     closed_at := Some now \<rparr>;
                              proceeds = dmul exit_price (pos_size position1);
                              trade = \<lparr> tr_id = now,
                                        tr_market_id = pos_market_id position1,
                                        tr_side = (if pos_side position1 = LONG then YES else NO),
                                        tr_price = exit_price, tr_size = pos_size position1,
                                        tr_strategy_id = strategy_id position1,
                                        pnl = realized, executed_at = now \<rparr>
                          in (Some position1,
                              s\<lparr> capital := dadd (capital s) proceeds,
                                 trade_history := trade_history s @ [trade],
                                 closed_positions := closed_positions s @ [position1],
                                 positions := dict_del position_id (positions s) \<rparr>)))))"












section \<open>The scanner's opportunity buffer (scanner.py)\<close>

record MarketScannerAgent =
  running :: bool
  scan_interval :: int
  opportunities :: "Opportunity list"
  scanned_markets :: "string set"
  last_scan :: "timestamp option"

text \<open>The slice \<open>xs[:limit]\<close>: a negative limit counts from the end of the list.\<close>

definition slice_to :: "'a list \<Rightarrow> int \<Rightarrow> 'a list" where
  "slice_to xs limit =
     (if 0 \<le> limit then take (nat limit) xs else take (nat (int (length xs) + limit)) xs)"

text \<open>
  \<open>get_opportunities\<close> starts from the buffer itself (\<open>opportunities = self.opportunities\<close>)
  and replaces it by a fresh list only when a filter runs: \<open>if min_score\<close> is false for
  \<open>None\<close> and for \<open>0.0\<close>, \<open>if opportunity_type\<close> is false for \<open>None\<close> only. The
  \<open>list.sort\<close> that follows sorts in place, so with no filter it is the buffer that is
  sorted; the model returns the result together with the scanner after the call.
  \<open>list.sort\<close> is stable, also with \<open>reverse=True\<close>, as is \<open>sort_key\<close> on the negated
  score.
\<close>

definition get_opportunities ::
  "MarketScannerAgent \<Rightarrow> pyfloat option \<Rightarrow> OpportunityType option \<Rightarrow> int
     \<Rightarrow> Opportunity list \<times> MarketScannerAgent" where
  "get_opportunities s min_score opp_type limit =
     (let by_score = (case min_score of None \<Rightarrow> False | Some m \<Rightarrow> m \<noteq> 0);
          l1 = (case min_score of
                  None \<Rightarrow> opportunities s
                | Some m \<Rightarrow> if m \<noteq> 0 then filter (\<lambda>x. score x \<ge> m) (opportunities s)
                            else opportunities s);
          l2 = (case opp_type of
                  None \<Rightarrow> l1
                | Some t \<Rightarrow> filter (\<lambda>x. opportunity_type x = t) l1);
          is_buffer = (\<not> by_score \<and> opp_type = None);
          sorted_list = sort_key (\<lambda>x. - score x) l2
      in (slice_to sorted_list limit,
          if is_buffer then s\<lparr> opportunities := sorted_list \<rparr> else s))"

section \<open>Position sizing in the coordinator (orchestrator.py, config.py)\<close>

text \<open>
  Of the settings and of a strategy blueprint only what \<open>_calculate_position_size\<close>
  reads is modelled: the configured \<open>max_position_size\<close> (the float 0.2 unless the
  environment overrides it) and the blueprint's \<open>risk_management\<close> dictionary of floats.
  The product \<open>max_size * opportunity.score\<close> is a float product.
\<close>

record Settings =
  max_position_size :: pyfloat
  max_concurrent_positions :: int
  opportunity_score_threshold :: pyfloat

record StrategyBlueprint =
  name :: string
  risk_management :: "(string \<times> pyfloat) list"

definition calculate_position_size :: "Settings \<Rightarrow> Opportunity \<Rightarrow> StrategyBlueprint \<Rightarrow> pyfloat" where
  "calculate_position_size settings opportunity strategy =
     (let max_size = (case map_of (risk_management strategy) ''max_position_size'' of
                        Some v \<Rightarrow> v
                      | None \<Rightarrow> max_position_size settings);
          adjusted_size = fmul max_size (score opportunity)
      in min adjusted_size max_size)"

section \<open>Concrete order books, opportunities and ledgers\<close>

text \<open>
  The values at which the properties below are instantiated. A float is written as the
  rational it is: 0.9 is \<open>8106479329266893 / 2^53\<close> and 0.2 is
  \<open>3602879701896397 / 2^54\<close>.
\<close>

definition book_buy :: OrderBook where
  "book_buy = \<lparr> market_id = ''m1'',
      yes_bids = [\<lparr> price = 39 / 100, size' = 10 \<rparr>],
      yes_asks = [\<lparr> price = 41 / 100, size' = 10 \<rparr>],
      no_bids = [\<lparr> price = 54 / 100, size' = 10 \<rparr>],
      no_asks = [\<lparr> price = 56 / 100, size' = 10 \<rparr>] \<rparr>"

definition book_sell :: OrderBook where
  "book_sell = \<lparr> market_id = ''m1'',
      yes_bids = [\<lparr> price = 54 / 100, size' = 10 \<rparr>],
      yes_asks = [\<lparr> price = 56 / 100, size' = 10 \<rparr>],
      no_bids = [\<lparr> price = 49 / 100, size' = 10 \<rparr>],
      no_asks = [\<lparr> price = 51 / 100, size' = 10 \<rparr>] \<rparr>"

definition book_zero_bid :: OrderBook where
  "book_zero_bid = \<lparr> market_id = ''m1'',
      yes_bids = [\<lparr> price = 0, size' = 5 \<rparr>],
      yes_asks = [\<lparr> price = 1 / 2, size' = 5 \<rparr>],
      no_bids = [], no_asks = [] \<rparr>"

definition book_zero_yes_bid :: OrderBook where
  "book_zero_yes_bid = \<lparr> market_id = ''m1'',
      yes_bids = [\<lparr> price = 0, size' = 5 \<rparr>],
      yes_asks = [\<lparr> price = 1 / 2, size' = 5 \<rparr>],
      no_bids = [\<lparr> price = 2 / 5, size' = 5 \<rparr>],
      no_asks = [\<lparr> price = 1 / 2, size' = 5 \<rparr>] \<rparr>"

definition book_thin :: OrderBook where
  "book_thin = \<lparr> market_id = ''m1'', yes_bids = [],
      yes_asks = [\<lparr> price = 1 / 2, size' = 1 \<rparr>],
      no_bids = [], no_asks = [] \<rparr>"

definition opp_low :: Opportunity where
  "opp_low = \<lparr> opp_id = ''opp_1'', opp_market_id = ''m1'', opportunity_type = LIQUIDITY,
      opp_side = YES, score = 1 / 2, expected_return = 1 / 8, risk_level = ''high'',
      opp_entry_price = 2 / 5, target_price = Some (4 / 5), opp_stop_loss = Some (3 / 10),
      reasoning = [], detected_at = 1, expires_at = None \<rparr>"

definition opp_high :: Opportunity where
  "opp_high = \<lparr> opp_id = ''opp_2'', opp_market_id = ''m1'', opportunity_type = ARBITRAGE,
      opp_side = YES, score = 8106479329266893 / 9007199254740992,
      expected_return = 1 / 16, risk_level = ''low'',
      opp_entry_price = 3 / 5, target_price = Some (9 / 10), opp_stop_loss = Some (1 / 2),
      reasoning = [], detected_at = 2, expires_at = None \<rparr>"

definition opp_zero :: Opportunity where
  "opp_zero = \<lparr> opp_id = ''opp_3'', opp_market_id = ''m1'', opportunity_type = NEWS_GAP,
      opp_side = NO, score = 7 / 8, expected_return = 1 / 16, risk_level = ''medium'',
      opp_entry_price = 0, target_price = None, opp_stop_loss = None,
      reasoning = [], detected_at = 3, expires_at = None \<rparr>"



definition scanner_two :: MarketScannerAgent where
  "scanner_two = \<lparr> running = True, scan_interval = 30, opportunities = [opp_low, opp_high],
      scanned_markets = {''m1''}, last_scan = None \<rparr>"

definition settings_default :: Settings where
  "settings_default = \<lparr> max_position_size = 3602879701896397 / 18014398509481984,
      max_concurrent_positions = 10, opportunity_score_threshold = 3 / 4 \<rparr>"

definition strategy_half :: StrategyBlueprint where
  "strategy_half = \<lparr> name = ''s1'',
      risk_management = [(''stop_loss_pct'', 1 / 8), (''max_position_size'', 1 / 2)] \<rparr>"

definition strategy_plain :: StrategyBlueprint where
  "strategy_plain = \<lparr> name = ''s2'', risk_management = [(''stop_loss_pct'', 1 / 8)] \<rparr>"

text \<open>
  The key under which the ledger stores the position of an opportunity's market and side
  (\<open>position_id\<close> in \<open>_execute_order\<close>).
\<close>

definition position_key :: "Opportunity \<Rightarrow> string" where
  "position_key opp = opp_market_id opp @ ''_'' @ side_value (opp_side opp)"

definition ledger0 :: DemoTrader where
  "ledger0 = \<lparr> capital = 100, initial_capital = 100, positions = [], orders = [],
      trade_history = [], closed_positions = [] \<rparr>"

definition pos_low :: Position where
  "pos_low = \<lparr> pos_id = ''m1_YES'', pos_market_id = ''m1'', pos_side = LONG, pos_size = 10,
      entry_price = 2 / 5, current_price = 2 / 5, strategy_id = Some ''s1'',
      strategy_name = Some ''s1'', unrealized_pnl = 0, realized_pnl = 0,
      stop_loss = Some (3 / 10), take_profit = Some (4 / 5), opened_at = 1,
      closed_at = None \<rparr>"

definition trade_low :: Trade where
  "trade_low = \<lparr> tr_id = 1, tr_market_id = ''m1'', tr_side = YES, tr_price = 2 / 5,
      tr_size = 10, tr_strategy_id = Some ''s1'', pnl = 0, executed_at = 1 \<rparr>"

definition ledger_open :: DemoTrader where
  "ledger_open = \<lparr> capital = 96, initial_capital = 100, positions = [(''m1_YES'', pos_low)],
      orders = [], trade_history = [trade_low], closed_positions = [] \<rparr>"



definition feed_zero :: feed where
  "feed_zero m = (if m = ''m1'' then Some book_zero_bid else None)"





text \<open>
  The price at which a position is marked and closed: the best bid of its side of the
  book (\<open>get_best_yes_price\<close> for a long position, \<open>get_best_no_price\<close> for a short
  one).
\<close>

definition exit_price_of :: "Position \<Rightarrow> OrderBook \<Rightarrow> decimal option" where
  "exit_price_of p ob =
     (if pos_side p = LONG then get_best_yes_price ob else get_best_no_price ob)"

section \<open>Arithmetic: properties\<close>

text \<open>
  Evaluation of the arithmetic on numerals: the floor of a quotient of numerals is their
  integer quotient, and \<open>arith_eval\<close> collects the equations that compute a rounding.
\<close>

lemma floor_rat_numeral [simp]:
  "\<lfloor>(numeral a :: rat) / numeral b\<rfloor> = numeral a div numeral b"
  by (metis floor_divide_of_int_eq of_int_numeral)

lemmas arith_eval = dadd_def dsub_def dmul_def ddiv_def dsum_def fmul_def dec_def fl_def
  round_to_def round_half_even_def ilog_def bpow_def ilog_up.simps ilog_down.simps Let_def

text \<open>The floats 0.9, 0.2 and 0.5 are what the literals round to.\<close>

lemma float_literals:
  "fl (9 / 10) = 8106479329266893 / 9007199254740992"
  "fl (1 / 5) = 3602879701896397 / 18014398509481984"
  "fl (1 / 2) = 1 / 2"
  by (simp_all add: arith_eval)

text \<open>
  Roundings of \<open>Decimal\<close>: quotients with no finite expansion, the product and the
  difference of an ordinary fill (a tenth of 100 placed at 0.30), two ties and a negative
  number.
\<close>

lemma decimal_examples:
  "ddiv 1 6 = 1666666666666666666666666667 / 10000000000000000000000000000"
  "ddiv 10 (3 / 10) = 3333333333333333333333333333 / 100000000000000000000000000"
  "dmul (3 / 10) (3333333333333333333333333333 / 100000000000000000000000000)
     = 9999999999999999999999999999 / 1000000000000000000000000000"
  "dsub 100 (9999999999999999999999999999 / 1000000000000000000000000000) = 90"
  "dec (10000000000000000000000000005 / 10) = 1000000000000000000000000000"
  "dec (10000000000000000000000000015 / 10) = 1000000000000000000000000002"
  "dec (- (1 / 3)) = - (3333333333333333333333333333 / 10000000000000000000000000000)"
  by (simp_all add: arith_eval)

text \<open>
  The exponent function meets its specification, \<open>b^e \<le> a < b^(e+1)\<close>, and is
  monotone.
\<close>

lemma bpow_powi: "bpow b k = of_nat b powi k"
  by (simp add: bpow_def power_int_def inverse_eq_divide power_one_over)

lemma bpow_pos: "0 < b \<Longrightarrow> 0 < bpow b k"
  by (simp add: bpow_def)

lemma bpow_add: "0 < b \<Longrightarrow> bpow b (j + k) = bpow b j * bpow b k"
  by (simp add: bpow_powi power_int_add)

lemma bpow_succ: "0 < b \<Longrightarrow> bpow b (k + 1) = bpow b k * of_nat b"
  by (simp add: bpow_add) (simp add: bpow_def)

lemma bpow_zero: "bpow b 0 = 1"
  by (simp add: bpow_def)

lemma bpow_nat: "bpow b (int n) = of_nat b ^ n"
  by (simp add: bpow_def)

lemma bpow_mono: "2 \<le> b \<Longrightarrow> j \<le> k \<Longrightarrow> bpow b j \<le> bpow b k"
proof -
  assume b: "2 \<le> b" and jk: "j \<le> k"
  then obtain n where k: "k = j + int n"
    by (metis nonneg_int_cases zle_iff_zadd)
  from b have "(1::rat) \<le> of_nat b ^ n" by (simp add: one_le_power)
  moreover from b have "0 < bpow b j" by (simp add: bpow_pos)
  ultimately have "bpow b j * 1 \<le> bpow b j * of_nat b ^ n"
    by (intro mult_left_mono) simp_all
  with b show ?thesis by (simp add: k bpow_add bpow_nat)
qed

lemma ilog_up_spec:
  "2 \<le> b \<Longrightarrow> 1 \<le> a \<Longrightarrow>
     e \<le> ilog_up b a e \<and> bpow b (ilog_up b a e - e) \<le> a \<and> a < bpow b (ilog_up b a e - e + 1)"
proof (induction b a e rule: ilog_up.induct)
  case (1 b a e)
  have b0: "0 < b" using "1.prems" by simp
  show ?case
  proof (cases "of_nat b \<le> a")
    case True
    with "1.prems" have c: "2 \<le> b \<and> of_nat b \<le> a" by simp
    from True b0 have a1: "1 \<le> a / of_nat b" by (simp add: le_divide_eq)
    let ?r = "ilog_up b (a / of_nat b) (e + 1)"
    define d where "d = ?r - (e + 1)"
    from "1.IH" [OF c "1.prems"(1) a1]
    have ih: "e + 1 \<le> ?r" "bpow b d \<le> a / of_nat b" "a / of_nat b < bpow b (d + 1)"
      by (simp_all add: d_def)
    have r: "ilog_up b a e = ?r" using c by (subst ilog_up.simps) simp
    have dd: "?r - e = d + 1" by (simp add: d_def)
    from ih(2) b0 have "bpow b (d + 1) \<le> a"
      by (simp add: bpow_succ le_divide_eq)
    moreover have "a < bpow b (d + 1 + 1)"
    proof -
      from ih(3) b0 have "a < bpow b (d + 1) * of_nat b" by (simp add: divide_less_eq)
      then show ?thesis by (simp only: bpow_succ [OF b0])
    qed
    ultimately show ?thesis using ih(1) by (simp add: r dd)
  next
    case False
    then have r: "ilog_up b a e = e" by (subst ilog_up.simps) simp
    from False "1.prems" have "a < of_nat b" by simp
    moreover have "bpow b 1 = of_nat b" by (simp add: bpow_def)
    ultimately show ?thesis using "1.prems" by (simp add: r bpow_zero)
  qed
qed

lemma ilog_down_spec:
  "2 \<le> b \<Longrightarrow> 0 < a \<Longrightarrow> a < 1 \<Longrightarrow>
     ilog_down b a e < e \<and> bpow b (ilog_down b a e - e) \<le> a \<and> a < bpow b (ilog_down b a e - e + 1)"
proof (induction b a e rule: ilog_down.induct)
  case (1 b a e)
  have b0: "0 < b" using "1.prems" by simp
  from "1.prems" have c: "2 \<le> b \<and> 0 < a \<and> a < 1" by simp
  let ?a' = "a * of_nat b"
  let ?r = "ilog_down b ?a' (e - 1)"
  have r: "ilog_down b a e = ?r" using c by (subst ilog_down.simps) simp
  have a'0: "0 < ?a'" using c b0 by simp
  show ?case
  proof (cases "?a' < 1")
    case True
    define d where "d = ?r - e"
    from "1.IH" [OF c "1.prems"(1) a'0 True]
    have ih: "?r < e - 1" "bpow b (d + 1) \<le> ?a'" "?a' < bpow b (d + 1 + 1)"
      by (simp_all add: d_def algebra_simps)
    from ih(2) b0 have "bpow b d \<le> a" by (simp add: bpow_succ)
    moreover have "a < bpow b (d + 1)"
    proof -
      from ih(3) have "a * of_nat b < bpow b (d + 1) * of_nat b"
        by (simp only: bpow_succ [OF b0])
      with b0 show ?thesis by simp
    qed
    ultimately show ?thesis using ih(1) by (simp add: r d_def)
  next
    case False
    then have r': "?r = e - 1" by (subst ilog_down.simps) simp
    have "bpow b (- 1) = 1 / of_nat b" by (simp add: bpow_def)
    moreover from False b0 have "1 / of_nat b \<le> a" by (simp add: divide_le_eq)
    ultimately show ?thesis using c by (simp add: r r' bpow_zero)
  qed
qed

lemma ilog_spec:
  assumes "2 \<le> b" and "0 < a"
  shows "bpow b (ilog b a) \<le> a \<and> a < bpow b (ilog b a + 1)"
proof (cases "1 \<le> a")
  case True
  with ilog_up_spec [OF assms(1) True, of 0] show ?thesis by (simp add: ilog_def)
next
  case False
  with ilog_down_spec [OF assms(1) assms(2), of 0] show ?thesis by (simp add: ilog_def)
qed


lemma bpow_less_imp: "2 \<le> b \<Longrightarrow> bpow b j < bpow b k \<Longrightarrow> j < k"
  by (rule ccontr) (use bpow_mono [of b k j] in simp)

lemma ilog_mono:
  assumes "2 \<le> b" and "0 < x" and "x \<le> v"
  shows "ilog b x \<le> ilog b v"
proof -
  from assms have v: "0 < v" by simp
  from ilog_spec [OF assms(1,2)] ilog_spec [OF assms(1) v] assms(3)
  have "bpow b (ilog b x) < bpow b (ilog b v + 1)" by linarith
  from bpow_less_imp [OF assms(1) this] show ?thesis by simp
qed

lemma round_half_even_le: "q \<le> of_int n \<Longrightarrow> round_half_even q \<le> n"
proof -
  assume q: "q \<le> of_int n"
  then have f: "\<lfloor>q\<rfloor> \<le> n" by (simp add: floor_le_iff)
  show ?thesis
  proof (cases "q = of_int \<lfloor>q\<rfloor>")
    case True
    then have "q - of_int \<lfloor>q\<rfloor> = 0" by simp
    then show ?thesis using f by (simp add: round_half_even_def Let_def)
  next
    case False
    with of_int_floor_le [of q] have "of_int \<lfloor>q\<rfloor> < q" by linarith
    with q have "(of_int \<lfloor>q\<rfloor> :: rat) < of_int n" by linarith
    then have "\<lfloor>q\<rfloor> < n" by simp
    then show ?thesis by (simp add: round_half_even_def Let_def)
  qed
qed

lemma round_half_even_nonneg: "0 \<le> q \<Longrightarrow> 0 \<le> round_half_even q"
  by (simp add: round_half_even_def Let_def)

text \<open>
  Rounding does not cross a representable number: what is at most \<open>v\<close> rounds to at
  most \<open>v\<close> when \<open>v\<close> is not negative and rounds to itself.
\<close>

lemma round_to_le:
  assumes b: "2 \<le> b" and xv: "x \<le> v" and v0: "0 \<le> v"
    and fixed: "round_to b p emin v = v"
  shows "round_to b p emin x \<le> v"
proof (cases "0 < x")
  case False
  have b0: "0 < b" using b by simp
  show ?thesis
  proof (cases "x = 0")
    case True
    with v0 show ?thesis by (simp add: round_to_def)
  next
    case False
    with \<open>\<not> 0 < x\<close> have neg: "x < 0" by simp
    define q where "q = bpow b (max (ilog b \<bar>x\<bar>) emin - (int p - 1))"
    have q0: "0 < q" using b0 by (simp add: q_def bpow_pos)
    then have "0 \<le> \<bar>x\<bar> / q" by (intro divide_nonneg_pos) simp_all
    then have "0 \<le> round_half_even (\<bar>x\<bar> / q)"
      by (rule round_half_even_nonneg)
    with q0 have "0 \<le> of_int (round_half_even (\<bar>x\<bar> / q)) * q" by simp
    with neg have "round_to b p emin x \<le> 0"
      unfolding q_def by (simp add: round_to_def Let_def)
    with v0 show ?thesis by simp
  qed
next
  case True
  have b0: "0 < b" using b by simp
  from True xv have vpos: "0 < v" by simp
  define kx where "kx = max (ilog b x) emin - (int p - 1)"
  define kv where "kv = max (ilog b v) emin - (int p - 1)"
  define nv where "nv = round_half_even (v / bpow b kv)"
  from ilog_mono [OF b True xv] have k: "kx \<le> kv" by (simp add: kx_def kv_def)
  then obtain n where n: "kv = kx + int n"
    by (metis zle_iff_zadd)
  have qx0: "0 < bpow b kx" using b0 by (rule bpow_pos)
  have qv: "bpow b kv = bpow b kx * of_nat b ^ n"
    using b0 by (simp only: n bpow_add bpow_nat)
  from fixed vpos have v: "v = of_int nv * bpow b kv"
    by (simp add: round_to_def Let_def kv_def nv_def)
  have "x / bpow b kx \<le> v / bpow b kx"
    using xv qx0 by (simp add: divide_right_mono)
  also have "v / bpow b kx = of_int (nv * int b ^ n)"
    using qx0 by (subst v) (simp add: qv)
  finally have "round_half_even (x / bpow b kx) \<le> nv * int b ^ n"
    by (rule round_half_even_le)
  then have "(of_int (round_half_even (x / bpow b kx)) :: rat) \<le> of_int (nv * int b ^ n)"
    by (simp only: of_int_le_iff)
  with qx0 have "of_int (round_half_even (x / bpow b kx)) * bpow b kx
       \<le> of_int (nv * int b ^ n) * bpow b kx"
    by (intro mult_right_mono) simp_all
  also have "of_int (nv * int b ^ n) * bpow b kx = of_int nv * bpow b kv"
    by (simp add: qv)
  also note v [symmetric]
  finally show ?thesis using True
    by (simp add: round_to_def Let_def kx_def)
qed

text \<open>
  A float limit that is not negative bounds its product with a score of at most 1, also
  after rounding.
\<close>

lemma fmul_le_limit:
  assumes "0 \<le> v" and "fl v = v" and "sc \<le> 1"
  shows "fmul v sc \<le> v"
proof -
  from assms(1,3) have "v * sc \<le> v * 1" by (intro mult_left_mono) simp_all
  then have "v * sc \<le> v" by simp
  from round_to_le [OF _ this assms(1) assms(2) [unfolded fl_def]]
  show ?thesis by (simp add: fmul_def fl_def)
qed

section \<open>Order book analytics: properties\<close>

lemma max_default_None: "max_default xs = None \<longleftrightarrow> xs = []"
  by (cases xs) simp_all

lemma min_default_None: "min_default xs = None \<longleftrightarrow> xs = []"
  by (cases xs) simp_all

text \<open>
  What holds of \<open>get_best_bid_ask\<close> on every book: the best bid (ask) is undefined
  exactly when the side has no bids (asks); spread and mid are undefined when either is
  undefined; and with both defined and different from zero they are the \<open>Decimal\<close>
  values of \<open>ask - bid\<close> and \<open>(bid + ask) / 2\<close>.
\<close>

lemma best_bid_undefined_iff:
  "best_bid (get_best_bid_ask ob sd) = None \<longleftrightarrow> side_bids ob sd = []"
  by (simp add: get_best_bid_ask_def Let_def max_default_None)

lemma best_ask_undefined_iff:
  "best_ask (get_best_bid_ask ob sd) = None \<longleftrightarrow> side_asks ob sd = []"
  by (simp add: get_best_bid_ask_def Let_def min_default_None)

lemma spread_mid_undefined:
  "best_bid (get_best_bid_ask ob sd) = None \<or> best_ask (get_best_bid_ask ob sd) = None
     \<Longrightarrow> spread (get_best_bid_ask ob sd) = None \<and> mid_price (get_best_bid_ask ob sd) = None"
  by (auto simp: get_best_bid_ask_def Let_def split: option.splits)

lemma spread_mid_defined:
  "best_bid (get_best_bid_ask ob sd) = Some b \<Longrightarrow> best_ask (get_best_bid_ask ob sd) = Some a
     \<Longrightarrow> b \<noteq> 0 \<Longrightarrow> a \<noteq> 0
     \<Longrightarrow> spread (get_best_bid_ask ob sd) = Some (dsub a b)
         \<and> mid_price (get_best_bid_ask ob sd) = Some (ddiv (dadd b a) 2)"
  by (simp add: get_best_bid_ask_def Let_def truthy_def)

text \<open>
  Relative to the mids that \<open>get_best_bid_ask\<close> returns, and when neither is zero, the
  arbitrage thresholds are those of the contract: a buy of \<open>1 - total\<close> under 0.98, a
  sell of \<open>total - 1\<close> over 1.02, nothing in between.
\<close>

lemma arbitrage_thresholds:
  assumes "mid_price (get_best_bid_ask ob YES) = Some y"
    and "mid_price (get_best_bid_ask ob NO) = Some n"
    and "y \<noteq> 0" and "n \<noteq> 0"
  shows "(dadd y n < 98 / 100 \<longrightarrow>
            (\<exists>a. get_arbitrage_opportunity ob = Some a \<and> arb_type a = buy_arbitrage
                  \<and> profit_potential a = dsub 1 (dadd y n)))
       \<and> (dadd y n > 102 / 100 \<longrightarrow>
            (\<exists>a. get_arbitrage_opportunity ob = Some a \<and> arb_type a = sell_arbitrage
                  \<and> profit_potential a = dsub (dadd y n) 1))
       \<and> (98 / 100 \<le> dadd y n \<and> dadd y n \<le> 102 / 100 \<longrightarrow>
            get_arbitrage_opportunity ob = None)"
  using assms by (simp add: get_arbitrage_opportunity_def Let_def)

lemma arbitrage_undefined_mid:
  "mid_price (get_best_bid_ask ob YES) = None \<or> mid_price (get_best_bid_ask ob NO) = None
     \<Longrightarrow> get_arbitrage_opportunity ob = None"
  by (auto simp: get_arbitrage_opportunity_def Let_def split: option.splits)

text \<open>
  The two cases the contract names, on books whose mids are 0.40 and 0.55, and 0.55 and
  0.50: a buy and a sell of magnitude 0.05.
\<close>

lemma arbitrage_named_cases:
  "mid_price (get_best_bid_ask book_buy YES) = Some (2 / 5)
   \<and> mid_price (get_best_bid_ask book_buy NO) = Some (11 / 20)
   \<and> (\<exists>a. get_arbitrage_opportunity book_buy = Some a \<and> arb_type a = buy_arbitrage
          \<and> profit_potential a = 1 / 20)
   \<and> mid_price (get_best_bid_ask book_sell YES) = Some (11 / 20)
   \<and> mid_price (get_best_bid_ask book_sell NO) = Some (1 / 2)
   \<and> (\<exists>a. get_arbitrage_opportunity book_sell = Some a \<and> arb_type a = sell_arbitrage
          \<and> profit_potential a = 1 / 20)"
  by (simp add: get_arbitrage_opportunity_def get_best_bid_ask_def book_buy_def book_sell_def
        side_bids_def side_asks_def truthy_def arith_eval)

text \<open>
  The variant of models.py, which the scanner calls, works on the best bids and reports
  the buy side only: on the same two books it gives 0.07 and nothing.
\<close>

lemma book_arbitrage_named_cases:
  "book_arbitrage_opportunity book_buy = Some (7 / 100)
   \<and> book_arbitrage_opportunity book_sell = None"
  by (simp add: book_arbitrage_opportunity_def get_best_yes_price_def get_best_no_price_def
        book_buy_def book_sell_def arith_eval)

text \<open>
  Claim C2 (arbitrage contract: whenever both mids are defined and their total is under
  0.98, the result is a buy of magnitude 1 - total). On a book with bids and asks on both
  sides, YES bid 0 and ask 0.5, NO bid 0.4 and ask 0.5, the mids are 0.25 and 0.45 and
  their total 0.70 is under 0.98, so the claim gives a buy of magnitude 0.30. The code
  returns no opportunity: \<open>get_best_bid_ask\<close> tests \<open>best_bid and best_ask\<close>, which is
  false for the bid of zero, and gives no YES mid.
\<close>

theorem arbitrage_zero_bid:
  "best_bid (get_best_bid_ask book_zero_yes_bid YES) = Some 0
   \<and> best_ask (get_best_bid_ask book_zero_yes_bid YES) = Some (1 / 2)
   \<and> best_bid (get_best_bid_ask book_zero_yes_bid NO) = Some (2 / 5)
   \<and> best_ask (get_best_bid_ask book_zero_yes_bid NO) = Some (1 / 2)
   \<and> dadd (ddiv (dadd 0 (1 / 2)) 2) (ddiv (dadd (2 / 5) (1 / 2)) 2) = 7 / 10
   \<and> mid_price (get_best_bid_ask book_zero_yes_bid YES) = None
   \<and> get_arbitrage_opportunity book_zero_yes_bid = None"
  by (simp add: get_arbitrage_opportunity_def get_best_bid_ask_def book_zero_yes_bid_def
        side_bids_def side_asks_def truthy_def arith_eval)

text \<open>
  Claim C3 (spread and mid are undefined exactly when the best bid or the best ask is
  undefined). The code tests \<open>best_bid and best_ask\<close>, which is false for a price of
  zero: on a book whose only YES bid is at price 0 and whose only YES ask is at 0.5, the
  best bid and the best ask are both defined, and spread and mid are undefined where
  the claim gives 0.5 and 0.25.
\<close>

theorem best_bid_ask_zero_bid:
  "best_bid (get_best_bid_ask book_zero_bid YES) = Some 0
   \<and> best_ask (get_best_bid_ask book_zero_bid YES) = Some (1 / 2)
   \<and> spread (get_best_bid_ask book_zero_bid YES) = None
   \<and> mid_price (get_best_bid_ask book_zero_bid YES) = None"
  by (simp add: get_best_bid_ask_def book_zero_bid_def side_bids_def side_asks_def truthy_def)

text \<open>
  When the whole request is filled, the average price returned is the total cost over
  the filled size, as a \<open>Decimal\<close> quotient.
\<close>

lemma market_impact_full_fill:
  "0 < sz \<Longrightarrow> impact_filled_size ob sd sz = sz
     \<Longrightarrow> average_price (get_market_impact ob sd sz)
           = ddiv (total_cost (get_market_impact ob sd sz)) (impact_filled_size ob sd sz)"
  by (simp add: get_market_impact_def Let_def split: prod.splits)

text \<open>
  Claim C4 (the average fill price is the total cost divided by the filled size). The
  code divides by the requested size: asking for 2 units of a book that offers 1 unit at
  0.5 fills 1 unit for a cost of 0.5, and the average price returned is 0.25, not
  0.5.
\<close>

theorem market_impact_thin_book:
  "impact_filled_size book_thin YES 2 = 1
   \<and> total_cost (get_market_impact book_thin YES 2) = 1 / 2
   \<and> average_price (get_market_impact book_thin YES 2) = 1 / 4
   \<and> average_price (get_market_impact book_thin YES 2)
        \<noteq> total_cost (get_market_impact book_thin YES 2) / impact_filled_size book_thin YES 2"
  by (simp add: get_market_impact_def impact_filled_size_def book_thin_def side_asks_def
        get_best_bid_ask_def side_bids_def truthy_def arith_eval)

section \<open>Scanner and coordinator: properties\<close>

text \<open>A call that filters leaves the scanner as it was.\<close>

lemma get_opportunities_filtered_pure:
  "(\<exists>m. min_score = Some m \<and> m \<noteq> 0) \<or> opp_type \<noteq> None
     \<Longrightarrow> snd (get_opportunities s min_score opp_type limit) = s"
  by (auto simp: get_opportunities_def Let_def split: option.splits)

text \<open>
  Two calls in a row with the same arguments return the same list, also when the first
  call sorted the buffer: sorting what is sorted changes nothing.
\<close>

lemma get_opportunities_result_stable:
  "fst (get_opportunities (snd (get_opportunities s min_score opp_type limit))
          min_score opp_type limit)
     = fst (get_opportunities s min_score opp_type limit)"
proof (cases "(\<exists>m. min_score = Some m \<and> m \<noteq> 0) \<or> opp_type \<noteq> None")
  case True
  then show ?thesis by (simp add: get_opportunities_filtered_pure)
next
  case False
  have "sort_key (\<lambda>x. - score x) (sort_key (\<lambda>x. - score x) xs)
          = sort_key (\<lambda>x. - score x) xs" for xs :: "Opportunity list"
    by (rule sort_key_id_if_sorted) simp
  with False show ?thesis
    by (auto simp: get_opportunities_def Let_def split: option.splits)
qed

text \<open>
  Claim C5 (\<open>get_opportunities\<close> leaves the buffer and its element order unchanged).
  Called with no minimum score and no type, the method sorts the scanner's own list in
  place: a buffer holding the scores 0.5, 0.9 in that order holds them in the order
  0.9, 0.5 after the call.
\<close>

theorem get_opportunities_sorts_buffer:
  "get_opportunities scanner_two None None 100
     = ([opp_high, opp_low], scanner_two\<lparr> opportunities := [opp_high, opp_low] \<rparr>)
   \<and> opportunities (snd (get_opportunities scanner_two None None 100))
        \<noteq> opportunities scanner_two"
  by (simp add: get_opportunities_def scanner_two_def slice_to_def Let_def
        opp_low_def opp_high_def)

text \<open>
  Claim C9, as amended: the size fraction is the float product \<open>m * score\<close>, where \<open>m\<close>
  is the strategy's own \<open>max_position_size\<close> when its risk management has one and the
  configured default only when it has none (for a float \<open>m\<close> that is not negative and a
  score of at most 1); the configured default does not bound a strategy's own limit.
\<close>

theorem position_size_strategy_or_settings:
  "(map_of (risk_management strategy) ''max_position_size'' = Some v \<and> 0 \<le> v \<and> fl v = v
      \<and> score opportunity \<le> 1
      \<longrightarrow> calculate_position_size settings opportunity strategy = fmul v (score opportunity))
 \<and> (map_of (risk_management strategy) ''max_position_size'' = None
      \<and> 0 \<le> max_position_size settings \<and> fl (max_position_size settings) = max_position_size settings
      \<and> score opportunity \<le> 1
      \<longrightarrow> calculate_position_size settings opportunity strategy
            = fmul (max_position_size settings) (score opportunity))"
  by (auto simp: calculate_position_size_def Let_def min_def dest: fmul_le_limit)

text \<open>
  At the score 0.9: a strategy with the limit 0.5 gives 0.45, and a strategy with no
  limit of its own gives the configured 0.2 times 0.9, which in floats is
  0.18000000000000002.
\<close>

theorem position_size_strategy_or_settings_witness:
  "calculate_position_size settings_default opp_high strategy_half
     = 8106479329266893 / 18014398509481984
   \<and> calculate_position_size settings_default opp_high strategy_plain
     = 6485183463413515 / 36028797018963968"
proof -
  have k1: "map_of (risk_management strategy_half) ''max_position_size'' = Some (1 / 2)"
    and k2: "map_of (risk_management strategy_plain) ''max_position_size'' = None"
    by (simp_all add: strategy_half_def strategy_plain_def)
  have sc: "score opp_high = 8106479329266893 / 9007199254740992"
    and mx: "max_position_size settings_default = 3602879701896397 / 18014398509481984"
    by (simp_all add: opp_high_def settings_default_def)
  have f1: "fl (1 / 2) = 1 / 2"
    and f2: "fl (3602879701896397 / 18014398509481984) = 3602879701896397 / 18014398509481984"
    by (simp_all add: arith_eval)
  have p1: "fmul (1 / 2) (8106479329266893 / 9007199254740992)
              = 8106479329266893 / 18014398509481984"
    and p2: "fmul (3602879701896397 / 18014398509481984) (8106479329266893 / 9007199254740992)
              = 6485183463413515 / 36028797018963968"
    by (simp_all add: arith_eval)
  from position_size_strategy_or_settings
         [of strategy_half "1 / 2" opp_high settings_default] k1 sc f1 p1
  have "calculate_position_size settings_default opp_high strategy_half
          = 8106479329266893 / 18014398509481984"
    by simp
  moreover from position_size_strategy_or_settings
         [of strategy_plain 0 opp_high settings_default] k2 sc mx f2 p2
  have "calculate_position_size settings_default opp_high strategy_plain
          = 6485183463413515 / 36028797018963968"
    by simp
  ultimately show ?thesis by simp
qed

text \<open>
  The claim as stated, \<open>min(strategy.maxPositionSize, settingsMax) * score\<close>, fails for a
  strategy whose limit 0.5 is above the configured 0.2: at score 0.9 the code gives
  0.45, the claim 0.18000000000000002.
\<close>

theorem position_size_not_bounded_by_settings:
  "map_of (risk_management strategy_half) ''max_position_size'' = Some (1 / 2)
   \<and> calculate_position_size settings_default opp_high strategy_half
        = 8106479329266893 / 18014398509481984
   \<and> fmul (min (1 / 2) (max_position_size settings_default)) (score opp_high)
        = 6485183463413515 / 36028797018963968
   \<and> calculate_position_size settings_default opp_high strategy_half
        \<noteq> fmul (min (1 / 2) (max_position_size settings_default)) (score opp_high)"
proof -
  have k: "map_of (risk_management strategy_half) ''max_position_size'' = Some (1 / 2)"
    by (simp add: strategy_half_def)
  have sc: "score opp_high = 8106479329266893 / 9007199254740992"
    and mx: "max_position_size settings_default = 3602879701896397 / 18014398509481984"
    by (simp_all add: opp_high_def settings_default_def)
  have p1: "fmul (1 / 2) (8106479329266893 / 9007199254740992)
              = 8106479329266893 / 18014398509481984"
    and p2: "fmul (3602879701896397 / 18014398509481984) (8106479329266893 / 9007199254740992)
              = 6485183463413515 / 36028797018963968"
    by (simp_all add: arith_eval)
  have c: "calculate_position_size settings_default opp_high strategy_half
             = 8106479329266893 / 18014398509481984"
    by (simp add: calculate_position_size_def k sc p1)
  have m: "fmul (min (1 / 2) (max_position_size settings_default)) (score opp_high)
             = 6485183463413515 / 36028797018963968"
    by (simp add: mx sc p2)
  show ?thesis by (simp add: k c m)
qed

section \<open>The paper-trading ledger: properties\<close>

lemma map_of_dict_set: "map_of (dict_set k v kvs) k = Some v"
  by (induction kvs) auto

lemma map_of_dict_set_other: "k' \<noteq> k \<Longrightarrow> map_of (dict_set k v kvs) k' = map_of kvs k'"
  by (induction kvs) auto

text \<open>
  Opening 10 units at 0.40 from a fresh ledger of capital 100 (4 percent of the equity)
  gives the ledger \<open>ledger_open\<close>.
\<close>

lemma open_first: "place_order 1 ledger0 opp_low (1 / 25) (Some ''s1'') (Some ''s1'')
   = (Placed \<lparr> ord_id = Some 1, ord_market_id = ''m1'', ord_side = YES, order_type = LIMIT,
        ord_price = 2 / 5, ord_size = 10, filled_size = 10, status = ''filled'',
        created_at = 1, filled_at = Some 1 \<rparr>, ledger_open)"
  by (simp add: place_order_def execute_order_def get_equity_def ledger0_def opp_low_def
        side_value_def update_pnl_def ledger_open_def pos_low_def trade_low_def arith_eval)

text \<open>
  An accepted order for a market and side that already has a position: the order is
  filled at the entry price, and the position stored under the key is the old one with
  its entry price, size, mark price and unrealized PnL replaced. Every operation is the
  \<open>Decimal\<close> one.
\<close>

lemma place_order_merge:
  assumes key: "map_of (positions s) (position_key opp) = Some p"
    and ep: "opp_entry_price opp \<noteq> 0"
    and cap: "dmul (get_equity s) pct \<le> capital s"
    and tot: "dadd (pos_size p) (ddiv (dmul (get_equity s) pct) (opp_entry_price opp)) \<noteq> 0"
  shows "\<exists>order s'. place_order now s opp pct sid sname = (Placed order, s')
      \<and> ord_price order = opp_entry_price opp
      \<and> ord_size order = ddiv (dmul (get_equity s) pct) (opp_entry_price opp)
      \<and> capital s' = dsub (capital s) (dmul (ord_price order) (ord_size order))
      \<and> map_of (positions s') (position_key opp)
          = Some (p\<lparr> entry_price :=
                       ddiv (dadd (dmul (entry_price p) (pos_size p))
                                  (dmul (ord_price order) (ord_size order)))
                            (dadd (pos_size p) (ord_size order)),
                     pos_size := dadd (pos_size p) (ord_size order),
                     current_price := ord_price order,
                     unrealized_pnl :=
                       (if pos_side p = LONG
                        then dmul (dsub (ord_price order)
                                    (ddiv (dadd (dmul (entry_price p) (pos_size p))
                                                (dmul (ord_price order) (ord_size order)))
                                          (dadd (pos_size p) (ord_size order))))
                                  (dadd (pos_size p) (ord_size order))
                        else dmul (dsub (ddiv (dadd (dmul (entry_price p) (pos_size p))
                                                    (dmul (ord_price order) (ord_size order)))
                                              (dadd (pos_size p) (ord_size order)))
                                        (ord_price order))
                                  (dadd (pos_size p) (ord_size order))) \<rparr>)"
  using assms
  by (simp add: place_order_def execute_order_def Let_def position_key_def update_pnl_def
        map_of_dict_set)

lemma ledger_open_facts:
  "map_of (positions ledger_open) (position_key opp_high) = Some pos_low"
  "get_equity ledger_open = 96" "capital ledger_open = 96"
  "opp_entry_price opp_high = 3 / 5"
  by (simp_all add: ledger_open_def position_key_def opp_high_def side_value_def
        get_equity_def pos_low_def arith_eval)

lemma pos_low_facts:
  "pos_size pos_low = 10" "entry_price pos_low = 2 / 5"
  by (simp_all add: pos_low_def)

text \<open>The \<open>Decimal\<close> operations of the two increases used below.\<close>

lemma increase_ten_arith:
  "dmul 96 (1 / 16) = 6" "ddiv 6 (3 / 5) = 10" "dadd 10 10 = 20"
  "dmul (2 / 5) 10 = 4" "dmul (3 / 5) 10 = 6" "dadd 4 6 = 10" "ddiv 10 20 = 1 / 2"
  by (simp_all add: arith_eval)

lemma increase_five_arith:
  "dmul 96 (1 / 32) = 3" "ddiv 3 (3 / 5) = 5" "dadd 10 5 = 15"
  "dmul (3 / 5) 5 = 3" "dadd 4 3 = 7"
  "ddiv 7 15 = 4666666666666666666666666667 / 10000000000000000000000000000"
  by (simp_all add: arith_eval)

text \<open>
  Claim C6, as amended (weighted-average cost basis). When \<open>place_order\<close> is accepted for
  a market and side whose position \<open>p\<close> is open (the entry price and the merged size are
  not zero, so that the fill is defined), the order is filled at the entry price and the
  merged position has the entry price
  \<open>(oldEntry * oldSize + fillPrice * fillSize) / (oldSize + fillSize)\<close> and the size
  \<open>oldSize + fillSize\<close>, each product, sum and quotient being the \<open>Decimal\<close> operation,
  which rounds to 28 significant digits.
\<close>

theorem weighted_average_entry:
  assumes "map_of (positions s) (position_key opp) = Some p"
    and "opp_entry_price opp \<noteq> 0"
    and "dmul (get_equity s) pct \<le> capital s"
    and "dadd (pos_size p) (ddiv (dmul (get_equity s) pct) (opp_entry_price opp)) \<noteq> 0"
  shows "\<exists>order s' p'. place_order now s opp pct sid sname = (Placed order, s')
      \<and> ord_price order = opp_entry_price opp
      \<and> ord_size order = ddiv (dmul (get_equity s) pct) (opp_entry_price opp)
      \<and> map_of (positions s') (position_key opp) = Some p'
      \<and> entry_price p' = ddiv (dadd (dmul (entry_price p) (pos_size p))
                                     (dmul (ord_price order) (ord_size order)))
                               (dadd (pos_size p) (ord_size order))
      \<and> pos_size p' = dadd (pos_size p) (ord_size order)"
proof -
  from place_order_merge [OF assms, of now sid sname]
  obtain order s' p' where
    "place_order now s opp pct sid sname = (Placed order, s')"
    "ord_price order = opp_entry_price opp"
    "ord_size order = ddiv (dmul (get_equity s) pct) (opp_entry_price opp)"
    "map_of (positions s') (position_key opp) = Some p'"
    "p' = p\<lparr> entry_price :=
                ddiv (dadd (dmul (entry_price p) (pos_size p))
                           (dmul (ord_price order) (ord_size order)))
                     (dadd (pos_size p) (ord_size order)),
              pos_size := dadd (pos_size p) (ord_size order),
              current_price := ord_price order,
              unrealized_pnl :=
                (if pos_side p = LONG
                 then dmul (dsub (ord_price order)
                             (ddiv (dadd (dmul (entry_price p) (pos_size p))
                                         (dmul (ord_price order) (ord_size order)))
                                   (dadd (pos_size p) (ord_size order))))
                           (dadd (pos_size p) (ord_size order))
                 else dmul (dsub (ddiv (dadd (dmul (entry_price p) (pos_size p))
                                             (dmul (ord_price order) (ord_size order)))
                                       (dadd (pos_size p) (ord_size order)))
                                 (ord_price order))
                           (dadd (pos_size p) (ord_size order))) \<rparr>"
    by blast
  then show ?thesis by simp
qed

text \<open>
  The case the claim names: the ledger holds 10 units opened at 0.40, and adding 10
  units at 0.60 gives entry price 0.50 and size 20, exactly.
\<close>

theorem weighted_average_entry_witness:
  "\<exists>order s' p'. place_order 2 ledger_open opp_high (1 / 16) (Some ''s2'') (Some ''s2'')
        = (Placed order, s')
     \<and> ord_price order = 3 / 5 \<and> ord_size order = 10
     \<and> map_of (positions s') ''m1_YES'' = Some p'
     \<and> entry_price p' = 1 / 2 \<and> pos_size p' = 20"
proof -
  have h: "opp_entry_price opp_high \<noteq> 0"
      "dmul (get_equity ledger_open) (1 / 16) \<le> capital ledger_open"
      "dadd (pos_size pos_low) (ddiv (dmul (get_equity ledger_open) (1 / 16))
                                  (opp_entry_price opp_high)) \<noteq> 0"
    by (simp_all add: ledger_open_facts pos_low_facts increase_ten_arith)
  have k: "position_key opp_high = ''m1_YES''"
    by (simp add: position_key_def opp_high_def side_value_def)
  from weighted_average_entry [OF ledger_open_facts(1) h, of 2 "Some ''s2''" "Some ''s2''"]
  obtain order s' p' where r:
    "place_order 2 ledger_open opp_high (1 / 16) (Some ''s2'') (Some ''s2'') = (Placed order, s')"
    "ord_price order = opp_entry_price opp_high"
    "ord_size order = ddiv (dmul (get_equity ledger_open) (1 / 16)) (opp_entry_price opp_high)"
    "map_of (positions s') (position_key opp_high) = Some p'"
    "entry_price p' = ddiv (dadd (dmul (entry_price pos_low) (pos_size pos_low))
                                 (dmul (ord_price order) (ord_size order)))
                           (dadd (pos_size pos_low) (ord_size order))"
    "pos_size p' = dadd (pos_size pos_low) (ord_size order)"
    by blast
  have o: "ord_price order = 3 / 5" "ord_size order = 10"
    using r(2,3) by (simp_all add: ledger_open_facts increase_ten_arith)
  have "entry_price p' = 1 / 2" "pos_size p' = 20"
    using r(5,6) by (simp_all add: o pos_low_facts increase_ten_arith)
  with o r(1,4) k show ?thesis by auto
qed

text \<open>
  The claim as stated, with the quotient of the rational numbers, fails where the
  quotient has no finite decimal expansion: adding 5 units at 0.60 to the 10 units opened
  at 0.40 gives the entry price 0.4666666666666666666666666667, not 7/15.
\<close>

theorem weighted_average_rounds:
  "\<exists>order s' p'. place_order 2 ledger_open opp_high (1 / 32) None None = (Placed order, s')
     \<and> ord_price order = 3 / 5 \<and> ord_size order = 5
     \<and> map_of (positions s') ''m1_YES'' = Some p'
     \<and> pos_size p' = 15
     \<and> entry_price p' = 4666666666666666666666666667 / 10000000000000000000000000000
     \<and> entry_price p' \<noteq> (entry_price pos_low * pos_size pos_low + ord_price order * ord_size order)
                            / (pos_size pos_low + ord_size order)"
proof -
  have h: "opp_entry_price opp_high \<noteq> 0"
      "dmul (get_equity ledger_open) (1 / 32) \<le> capital ledger_open"
      "dadd (pos_size pos_low) (ddiv (dmul (get_equity ledger_open) (1 / 32))
                                  (opp_entry_price opp_high)) \<noteq> 0"
    by (simp_all add: ledger_open_facts pos_low_facts increase_five_arith)
  have k: "position_key opp_high = ''m1_YES''"
    by (simp add: position_key_def opp_high_def side_value_def)
  from place_order_merge [OF ledger_open_facts(1) h, of 2 None None]
  obtain order s' p' where r:
    "place_order 2 ledger_open opp_high (1 / 32) None None = (Placed order, s')"
    "ord_price order = opp_entry_price opp_high"
    "ord_size order = ddiv (dmul (get_equity ledger_open) (1 / 32)) (opp_entry_price opp_high)"
    "map_of (positions s') (position_key opp_high) = Some p'"
    "entry_price p' = ddiv (dadd (dmul (entry_price pos_low) (pos_size pos_low))
                                 (dmul (ord_price order) (ord_size order)))
                           (dadd (pos_size pos_low) (ord_size order))"
    "pos_size p' = dadd (pos_size pos_low) (ord_size order)"
    by auto
  have o: "ord_price order = 3 / 5" "ord_size order = 5"
    using r(2,3) by (simp_all add: ledger_open_facts increase_five_arith)
  have e: "entry_price p' = 4666666666666666666666666667 / 10000000000000000000000000000"
      "pos_size p' = 15"
    using r(5,6) by (simp_all add: o pos_low_facts increase_ten_arith increase_five_arith)
  have "entry_price p' \<noteq> (entry_price pos_low * pos_size pos_low + ord_price order * ord_size order)
                            / (pos_size pos_low + ord_size order)"
    by (simp add: e o pos_low_facts)
  with o e r(1,4) k show ?thesis by auto
qed

text \<open>
  Claim C7, as amended: for every ledger state and every opportunity whose entry price
  is not zero, when \<open>positionValue = (capital + unrealized PnL) * sizePct\<close> exceeds the
  capital, \<open>place_order\<close> returns no order, raises nothing and leaves the whole
  ledger unchanged.
\<close>

theorem insufficient_capital_noop:
  "opp_entry_price opp \<noteq> 0 \<Longrightarrow> capital s < dmul (get_equity s) pct
     \<Longrightarrow> place_order now s opp pct sid sname = (Rejected, s)"
  by (simp add: place_order_def Let_def)

lemma double_arith: "dmul 96 2 = 192"
  by (simp add: arith_eval)

theorem insufficient_capital_noop_witness:
  "opp_entry_price opp_high \<noteq> 0 \<and> capital ledger_open < dmul (get_equity ledger_open) 2
   \<and> place_order 2 ledger_open opp_high 2 None None = (Rejected, ledger_open)"
proof -
  have h: "opp_entry_price opp_high \<noteq> 0"
      "capital ledger_open < dmul (get_equity ledger_open) 2"
    by (simp_all add: ledger_open_facts double_arith)
  from insufficient_capital_noop [OF h] h show ?thesis by simp
qed

text \<open>
  The claim as stated, for every opportunity, fails at an entry price of zero: the size
  \<open>position_value / entry_price\<close> is computed before the capital check, and the
  division raises.
\<close>

theorem zero_entry_price_raises:
  "capital ledger_open < dmul (get_equity ledger_open) 2
   \<and> place_order 2 ledger_open opp_zero 2 None None
        = (Raised DivisionByZero None, ledger_open)
   \<and> place_order 2 ledger_open opp_zero 2 None None \<noteq> (Rejected, ledger_open)"
  by (simp add: place_order_def Let_def ledger_open_facts opp_zero_def double_arith)

text \<open>
  Claim C10 (frame of a position increase). When \<open>place_order\<close> fills into an open
  position \<open>p\<close>, the stored position is \<open>p\<close> with only its entry price, size, mark
  price and unrealized PnL replaced: stop loss, take profit, side, strategy attribution
  and opening time are those of \<open>p\<close>, whatever the new opportunity and the
  strategy arguments of the call are.
\<close>

theorem increase_frame:
  assumes "map_of (positions s) (position_key opp) = Some p"
    and "opp_entry_price opp \<noteq> 0"
    and "dmul (get_equity s) pct \<le> capital s"
    and "dadd (pos_size p) (ddiv (dmul (get_equity s) pct) (opp_entry_price opp)) \<noteq> 0"
  shows "\<exists>order s' p' e z c u. place_order now s opp pct sid sname = (Placed order, s')
      \<and> map_of (positions s') (position_key opp) = Some p'
      \<and> p' = p\<lparr> entry_price := e, pos_size := z, current_price := c, unrealized_pnl := u \<rparr>
      \<and> stop_loss p' = stop_loss p \<and> take_profit p' = take_profit p
      \<and> pos_side p' = pos_side p \<and> strategy_id p' = strategy_id p
      \<and> strategy_name p' = strategy_name p \<and> opened_at p' = opened_at p"
proof -
  from place_order_merge [OF assms, of now sid sname]
  obtain order s' e z c u where r:
    "place_order now s opp pct sid sname = (Placed order, s')"
    "map_of (positions s') (position_key opp)
       = Some (p\<lparr> entry_price := e, pos_size := z, current_price := c, unrealized_pnl := u \<rparr>)"
    by blast
  show ?thesis
    apply (rule exI [of _ order], rule exI [of _ s'])
    apply (rule exI [of _ "p\<lparr> entry_price := e, pos_size := z, current_price := c,
                                unrealized_pnl := u \<rparr>"])
    apply (rule exI [of _ e], rule exI [of _ z], rule exI [of _ c], rule exI [of _ u])
    apply (simp add: r)
    done
qed

text \<open>
  The increase at 0.60 on the position opened at 0.40: the opportunity carries stop loss
  0.5 and target 0.9 and the call names strategy \<open>s2\<close>; the position keeps stop loss
  0.3, take profit 0.8, strategy \<open>s1\<close> and opening time 1.
\<close>

theorem increase_frame_witness:
  "\<exists>order s' p'. place_order 2 ledger_open opp_high (1 / 16) (Some ''s2'') (Some ''s2'')
        = (Placed order, s')
     \<and> map_of (positions s') ''m1_YES'' = Some p'
     \<and> stop_loss p' = Some (3 / 10) \<and> take_profit p' = Some (4 / 5) \<and> pos_side p' = LONG
     \<and> strategy_id p' = Some ''s1'' \<and> strategy_name p' = Some ''s1'' \<and> opened_at p' = 1
     \<and> opp_stop_loss opp_high = Some (1 / 2) \<and> target_price opp_high = Some (9 / 10)"
proof -
  have h: "opp_entry_price opp_high \<noteq> 0"
      "dmul (get_equity ledger_open) (1 / 16) \<le> capital ledger_open"
      "dadd (pos_size pos_low) (ddiv (dmul (get_equity ledger_open) (1 / 16))
                                  (opp_entry_price opp_high)) \<noteq> 0"
    by (simp_all add: ledger_open_facts pos_low_facts increase_ten_arith)
  have k: "position_key opp_high = ''m1_YES''"
    by (simp add: position_key_def opp_high_def side_value_def)
  have o: "opp_stop_loss opp_high = Some (1 / 2)" "target_price opp_high = Some (9 / 10)"
    by (simp_all add: opp_high_def)
  from increase_frame [OF ledger_open_facts(1) h, of 2 "Some ''s2''" "Some ''s2''"]
  obtain order s' p' where
    "place_order 2 ledger_open opp_high (1 / 16) (Some ''s2'') (Some ''s2'') = (Placed order, s')"
    "map_of (positions s') (position_key opp_high) = Some p'"
    "stop_loss p' = stop_loss pos_low" "take_profit p' = take_profit pos_low"
    "pos_side p' = pos_side pos_low" "strategy_id p' = strategy_id pos_low"
    "strategy_name p' = strategy_name pos_low" "opened_at p' = opened_at pos_low"
    by blast
  then show ?thesis using o by (simp add: k pos_low_def)
qed














text \<open>
  What holds of \<open>close_position\<close> on every ledger: it does nothing when the id is not
  open, when the feed has no order book, or when the position's side has no bid; and with
  an exit price different from zero it adds \<open>exit * size\<close> to the capital, appends one
  trade carrying the realized PnL, removes the position from the open ones and appends
  it to the closed ones.
\<close>

lemma close_position_noop:
  "map_of (positions s) position_id = None
   \<or> (\<exists>p. map_of (positions s) position_id = Some p
          \<and> (fd (pos_market_id p) = None
              \<or> (\<exists>ob. fd (pos_market_id p) = Some ob \<and> exit_price_of p ob = None)))
   \<Longrightarrow> close_position now fd s position_id reason = (None, s)"
  by (auto simp: close_position_def exit_price_of_def)

lemma close_position_closes:
  assumes "map_of (positions s) position_id = Some p"
    and "fd (pos_market_id p) = Some ob"
    and "exit_price_of p ob = Some ep" and "ep \<noteq> 0"
  shows "close_position now fd s position_id reason =
     (let realized = (if pos_side p = LONG then dmul (dsub ep (entry_price p)) (pos_size p)
                      else dmul (dsub (entry_price p) ep) (pos_size p));
          p' = p\<lparr> realized_pnl := realized, current_price := ep, closed_at := Some now \<rparr>
      in (Some p',
          s\<lparr> capital := dadd (capital s) (dmul ep (pos_size p)),
             trade_history := trade_history s @
               [\<lparr> tr_id = now, tr_market_id = pos_market_id p,
                   tr_side = (if pos_side p = LONG then YES else NO),
                   tr_price = ep, tr_size = pos_size p, tr_strategy_id = strategy_id p,
                   pnl = realized, executed_at = now \<rparr>],
             closed_positions := closed_positions s @ [p'],
             positions := dict_del position_id (positions s) \<rparr>))"
  using assms by (auto simp: close_position_def exit_price_of_def Let_def)

lemma dict_del_absent: "map_of (dict_del k kvs) k = None"
  by (induction kvs) (auto simp: dict_del_def)

text \<open>
  Claim C8 (\<open>close_position\<close> closes the position whenever the id is open and the feed
  has a best price for its side). The code tests \<open>if not exit_price\<close>, which is true for
  a price of zero: with the position open, the order book available and a best YES bid of
  0, nothing is closed and the ledger is unchanged, where the claim adds \<open>0 * size\<close> to
  the capital, records the closing trade and moves the position to the closed history.
\<close>

theorem close_position_zero_price:
  "map_of (positions ledger_open) ''m1_YES'' = Some pos_low
   \<and> feed_zero (pos_market_id pos_low) = Some book_zero_bid
   \<and> get_best_yes_price book_zero_bid = Some 0
   \<and> close_position 3 feed_zero ledger_open ''m1_YES'' ''manual'' = (None, ledger_open)"
  by (simp add: close_position_def ledger_open_def pos_low_def feed_zero_def
        book_zero_bid_def get_best_yes_price_def)

end
